theory Spec2Isabelle
  imports Main "HOL-Library.Word"
begin

unbundle bit_operations_syntax

section \<open>JavaScript values used by the loader\<close>

type_synonym u8 = "8 word"
type_synonym int32 = "32 word"

text \<open>A \<open>Uint8Array\<close> is the list of its bytes.\<close>

type_synonym bytes = "u8 list"

text \<open>
  The module throws \<open>new Error(message)\<close> and \<open>new TypeError(message)\<close>; an error value
  is its constructor and its message.
\<close>

datatype js_error = Error string | TypeError string

text \<open>The error of \<open>parseGpkgGeom\<close>'s \<open>default\<close> branch.\<close>

definition InvalidEnvelopeFlag :: js_error where
  "InvalidEnvelopeFlag = Error ''Invalid geometry envelope size flag in GeoPackage''"

section \<open>The envelope parser \<open>parseGpkgGeom\<close>\<close>

text \<open>
  \<open>a[i]\<close> on a typed array: the byte, or \<open>undefined\<close> (here \<open>None\<close>) when \<open>i\<close> is not
  an index of \<open>a\<close>.
\<close>

definition typed_array_get :: "bytes \<Rightarrow> nat \<Rightarrow> u8 option" where
  "typed_array_get a i = (if i < length a then Some (a ! i) else None)"

text \<open>
  The operands of \<open>>>\<close> and \<open>&\<close> go through ToInt32: \<open>undefined\<close> becomes 0, a byte
  keeps its value.
\<close>

definition toInt32 :: "u8 option \<Rightarrow> int32" where
  "toInt32 v = (case v of None \<Rightarrow> 0 | Some b \<Rightarrow> ucast b)"

text \<open>
  \<open>a.subarray(begin)\<close> for \<open>begin \<ge> 0\<close>: the view from \<open>min begin (length a)\<close> to the
  end of \<open>a\<close>.
\<close>

definition subarray :: "bytes \<Rightarrow> nat \<Rightarrow> bytes" where
  "subarray a begin = drop (min begin (length a)) a"

text \<open>\<open>var flags = gpkgBinGeom[3]; var eFlags = (flags >> 1) & 7;\<close>\<close>

definition eFlags_of :: "bytes \<Rightarrow> int32" where
  "eFlags_of gpkgBinGeom =
     (let flags = typed_array_get gpkgBinGeom 3
      in signed_drop_bit 1 (toInt32 flags) AND 7)"

text \<open>The \<open>switch (eFlags)\<close>, with its throwing \<open>default\<close>.\<close>

definition envelopeSize_of :: "int32 \<Rightarrow> js_error + nat" where
  "envelopeSize_of eFlags =
     (if eFlags = 0 then Inr 0
      else if eFlags = 1 then Inr 32
      else if eFlags = 2 \<or> eFlags = 3 then Inr 48
      else if eFlags = 4 then Inr 64
      else Inl InvalidEnvelopeFlag)"

text \<open>\<open>var wkbOffset = envelopeSize + 8;\<close>\<close>

definition wkbOffset_of :: "bytes \<Rightarrow> js_error + nat" where
  "wkbOffset_of gpkgBinGeom =
     (case envelopeSize_of (eFlags_of gpkgBinGeom) of
        Inl err \<Rightarrow> Inl err
      | Inr envelopeSize \<Rightarrow> Inr (envelopeSize + 8))"

text \<open>\<open>return gpkgBinGeom.subarray(wkbOffset);\<close>\<close>

definition parseGpkgGeom :: "bytes \<Rightarrow> js_error + bytes" where
  "parseGpkgGeom gpkgBinGeom =
     (case wkbOffset_of gpkgBinGeom of
        Inl err \<Rightarrow> Inl err
      | Inr wkbOffset \<Rightarrow> Inr (subarray gpkgBinGeom wkbOffset))"

section \<open>Strings of values\<close>

text \<open>Decimal digits of a number, as string concatenation and template literals give them.\<close>

fun show_nat :: "nat \<Rightarrow> string" where
  "show_nat n =
     (if n < 10 then [''0123456789'' ! n]
      else show_nat (n div 10) @ [''0123456789'' ! (n mod 10)])"

declare show_nat.simps [simp del]

definition show_int :: "int \<Rightarrow> string" where
  "show_int i = (if i < 0 then CHR ''-'' # show_nat (nat (- i)) else show_nat (nat i))"

fun join_comma :: "string list \<Rightarrow> string" where
  "join_comma [] = []"
| "join_comma [s] = s"
| "join_comma (s # t # ts) = s @ '','' @ join_comma (t # ts)"

text \<open>
  The values that sql.js delivers in a result row, and \<open>undefined\<close> for what is missing:
  \<open>null\<close>, a number, a string, or a \<open>Uint8Array\<close> for a blob. \<open>JsNumber i\<close> is a
  number whose value is the integer \<open>i\<close>, of magnitude below \<open>10^21\<close> (every value of an
  INTEGER column is one), which ToString prints in decimal. Every other number (a fraction,
  a magnitude from \<open>10^21\<close> on, an infinity) is \<open>JsFloat s\<close>, given by the text \<open>s\<close>
  that ToString makes of it: the floating-point printing itself is outside the model.
\<close>

datatype js_value =
  JsUndefined | JsNull | JsNumber int | JsFloat string | JsString string | JsBytes bytes

text \<open>ToString, as applied by \<open>+\<close> on a string and by a property key \<open>obj[v]\<close>.\<close>

fun js_ToString :: "js_value \<Rightarrow> string" where
  "js_ToString JsUndefined = ''undefined''"
| "js_ToString JsNull = ''null''"
| "js_ToString (JsNumber i) = show_int i"
| "js_ToString (JsFloat s) = s"
| "js_ToString (JsString s) = s"
| "js_ToString (JsBytes b) = join_comma (map (\<lambda>x. show_nat (unat x)) b)"

text \<open>
  The method call \<open>v.toString()\<close>: a TypeError of the engine on \<open>undefined\<close> and \<open>null\<close>
  (the message texts of engine errors are V8's).
\<close>

fun call_toString :: "js_value \<Rightarrow> js_error + string" where
  "call_toString JsUndefined =
     Inl (TypeError ''Cannot read properties of undefined (reading 'toString')'')"
| "call_toString JsNull =
     Inl (TypeError ''Cannot read properties of null (reading 'toString')'')"
| "call_toString v = Inr (js_ToString v)"

text \<open>\<open>Error.prototype.toString\<close>, applied by \<open>'text' + err\<close>.\<close>

fun error_toString :: "js_error \<Rightarrow> string" where
  "error_toString (Error m) = (if m = [] then ''Error'' else ''Error: '' @ m)"
| "error_toString (TypeError m) = (if m = [] then ''TypeError'' else ''TypeError: '' @ m)"

text \<open>
  ToBoolean: \<open>undefined\<close>, \<open>null\<close>, 0 and the empty string are false; an object is
  true. A \<open>JsFloat\<close> is not zero, and the engine delivers no NaN.
\<close>

fun truthy :: "js_value \<Rightarrow> bool" where
  "truthy JsUndefined = False"
| "truthy JsNull = False"
| "truthy (JsNumber i) = (i \<noteq> 0)"
| "truthy (JsFloat s) = True"
| "truthy (JsString s) = (s \<noteq> [])"
| "truthy (JsBytes b) = True"

text \<open>\<open>a[i]\<close> on an array: \<open>undefined\<close> beyond its end.\<close>

definition array_get :: "js_value list \<Rightarrow> nat \<Rightarrow> js_value" where
  "array_get a i = (if i < length a then a ! i else JsUndefined)"

section \<open>The errors of the module\<close>

text \<open>Each error the module constructs, under the name the specification gives it.\<close>

definition WasmNotInitialized :: js_error where
  "WasmNotInitialized =
     Error (''SQL WASM loading has not started; '' @
            ''did you forget to run initSqlJsWasm() first?'')"

definition UnknownDisplayProjection :: "string \<Rightarrow> js_error" where
  "UnknownDisplayProjection displayProjection =
     Error (''Missing requested display projection ['' @ displayProjection @
            ''] - can be added beforehand with ol/proj/proj4'')"

definition WasmLoadFailed :: "js_error \<Rightarrow> js_error" where
  "WasmLoadFailed reason =
     Error (''Unable to load SQLite JS binary (sql-wasm.wasm).\<newline>'' @ error_toString reason)"

definition InvalidInputKind :: js_error where
  "InvalidInputKind = TypeError ''Input must be URL string or URL/File/Blob object''"

definition SourceUnreachable :: "string \<Rightarrow> nat \<Rightarrow> string \<Rightarrow> js_error" where
  "SourceUnreachable input status statusText =
     Error (''GPKG file could not be loaded from URL:\<newline>'' @
            ''  '' @ input @ ''\<newline>'' @
            ''Response: ('' @ show_nat status @ '') '' @ statusText)"

definition BodyReadFailed :: "js_error \<Rightarrow> js_error" where
  "BodyReadFailed error =
     Error (''Requested GPKG file could not be loaded.\<newline>'' @ error_toString error)"

definition CatalogExtractionFailed :: "js_error \<Rightarrow> js_error" where
  "CatalogExtractionFailed err =
     Error (''Unable to extract feature tables from OGC GeoPackage file.\<newline>'' @
            error_toString err)"

definition UnknownSourceProjection :: "string \<Rightarrow> string \<Rightarrow> js_error" where
  "UnknownSourceProjection tableDataProjection table_name =
     Error (''Missing data projection ['' @ tableDataProjection @
            ''] for table '' @ [CHR 0x22] @ table_name @ [CHR 0x22] @
            '' - can be added beforehand with ol/proj/proj4'')"

section \<open>Plain objects used as dictionaries\<close>

text \<open>
  \<open>dataFromGpkg\<close>, \<open>sldsFromGpkg\<close> and the row objects of sql.js are plain objects
  \<open>{}\<close> filled by \<open>obj[key] = v\<close>. Such an object is modelled by its own keys. The
  assignment creates or replaces the key, except for the key \<open>__proto__\<close>: that
  assignment creates no key (it replaces the prototype of the object when \<open>v\<close> is an
  object or \<open>null\<close>, and does nothing otherwise). What a replaced prototype changes for
  later reads and assignments is not modelled.
\<close>

definition obj_set :: "(string \<rightharpoonup> 'v) \<Rightarrow> string \<Rightarrow> 'v \<Rightarrow> (string \<rightharpoonup> 'v)" where
  "obj_set obj key v = (if key = ''__proto__'' then obj else obj(key \<mapsto> v))"

text \<open>
  The names that a read \<open>obj[key]\<close> finds on \<open>Object.prototype\<close> when \<open>obj\<close> has no
  such key of its own: functions, and the prototype itself for \<open>__proto__\<close>.
\<close>

definition object_prototype_names :: "string list" where
  "object_prototype_names =
     [''constructor'', ''__defineGetter__'', ''__defineSetter__'', ''hasOwnProperty'',
      ''__lookupGetter__'', ''__lookupSetter__'', ''isPrototypeOf'', ''propertyIsEnumerable'',
      ''toString'', ''valueOf'', ''__proto__'', ''toLocaleString'']"

section \<open>The relational engine (sql.js)\<close>

text \<open>
  The engine is external. A result row is the list of its columns, name and value, in
  column order. A statement is what stepping through it delivers: rows, and then either the
  end (\<open>None\<close>) or a throw. A database answers \<open>db.prepare(sql)\<close> with a statement or
  throws; \<open>new sqlWasm.Database(bytes)\<close> gives a database or throws.
\<close>

type_synonym row = "(string \<times> js_value) list"
type_synonym statement = "row list \<times> js_error option"
type_synonym database = "string \<Rightarrow> js_error + statement"
type_synonym sqlWasm = "bytes \<Rightarrow> js_error + database"

text \<open>\<open>stmt.get()\<close>: the values of the current row.\<close>

definition stmt_get :: "row \<Rightarrow> js_value list" where
  "stmt_get r = map snd r"

text \<open>
  \<open>stmt.getAsObject()\<close>: sql.js assigns \<open>rowObject[name] = value\<close> column by column;
  of two columns with one name the later one stays.
\<close>

definition getAsObject :: "row \<Rightarrow> (string \<rightharpoonup> js_value)" where
  "getAsObject r = fold (\<lambda>(name, v) obj. obj_set obj name v) r Map.empty"

text \<open>The three fixed statements and the one built per table.\<close>

definition catalog_sql :: string where
  "catalog_sql = concat
     [''\<newline>'',
      ''            SELECT gpkg_contents.table_name, gpkg_contents.srs_id,\<newline>'',
      ''                gpkg_geometry_columns.column_name\<newline>'',
      ''            FROM gpkg_contents JOIN gpkg_geometry_columns\<newline>'',
      ''            WHERE gpkg_contents.data_type='features' AND\<newline>'',
      ''                gpkg_contents.table_name=gpkg_geometry_columns.table_name;\<newline>'',
      ''        '']"

definition styles_probe_sql :: string where
  "styles_probe_sql = concat
     [''\<newline>'',
      ''        SELECT gpkg_contents.table_name\<newline>'',
      ''        FROM gpkg_contents\<newline>'',
      ''        WHERE gpkg_contents.table_name='layer_styles'\<newline>'',
      ''    '']"

definition styles_sql :: string where
  "styles_sql = ''SELECT f_table_name,styleSLD FROM layer_styles''"

definition table_sql :: "string \<Rightarrow> string" where
  "table_sql table_name = ''SELECT * FROM '' @ [CHR 0x27] @ table_name @ [CHR 0x27]"

section \<open>The mapping library (OpenLayers)\<close>

text \<open>
  A feature is a bag of named properties; its geometry is the property \<open>geometry\<close>.
  \<open>ol_proj_get\<close> tells whether a projection code is registered. \<open>readFeatures\<close> is the
  WKB decoder with the data and the feature projection: it throws or gives the decoded
  geometries (several for a geometry collection), each of which becomes a new feature
  holding that geometry and nothing else. A vector source holds the features added to it,
  here in the order of addition, and its own properties.
\<close>

datatype 'g property = Geometry 'g | Attribute js_value

type_synonym 'g feature = "string \<rightharpoonup> 'g property"

record 'g vector_source =
  features :: "'g feature list"
  properties :: "string \<rightharpoonup> string"

record 'g ol_env =
  ol_proj_get :: "string \<Rightarrow> bool"
  readFeatures :: "bytes \<Rightarrow> string \<Rightarrow> string \<Rightarrow> js_error + 'g list"

definition new_Feature :: "'g \<Rightarrow> 'g feature" where
  "new_Feature g = [''geometry'' \<mapsto> Geometry g]"

text \<open>
  \<open>feature.setProperties(values)\<close> sets every property of \<open>values\<close> on the feature.
  Setting the property \<open>geometry\<close> makes the feature listen to its new geometry: with a
  value that is true and not a geometry this throws (\<open>addEventListener\<close> is missing), with
  a value that is false the feature loses its geometry and nothing is thrown.
\<close>

definition setProperties ::
  "'g feature \<Rightarrow> (string \<rightharpoonup> js_value) \<Rightarrow> js_error + 'g feature" where
  "setProperties f vals =
     (if (case vals ''geometry'' of None \<Rightarrow> False | Some v \<Rightarrow> truthy v)
      then Inl (TypeError ''target.addEventListener is not a function'')
      else Inr (\<lambda>k. case vals k of None \<Rightarrow> f k | Some v \<Rightarrow> Some (Attribute v)))"

section \<open>\<open>processGpkgData\<close>\<close>

subsection \<open>The catalog of feature tables\<close>

record table_descriptor =
  table_name :: js_value
  srs_id :: string
  geometry_column_name :: js_value

text \<open>
  The body of the first \<open>while (stmt.step())\<close>: \<open>row[1].toString()\<close> throws on
  \<open>null\<close> and \<open>undefined\<close>.
\<close>

definition descriptor_of :: "row \<Rightarrow> js_error + table_descriptor" where
  "descriptor_of r =
     (let row = stmt_get r
      in case call_toString (array_get row 1) of
           Inl err \<Rightarrow> Inl err
         | Inr s \<Rightarrow> Inr \<lparr>table_name = array_get row 0, srs_id = s,
                         geometry_column_name = array_get row 2\<rparr>)"

fun featureTableRows :: "row list \<Rightarrow> js_error option \<Rightarrow> js_error + table_descriptor list" where
  "featureTableRows [] None = Inr []"
| "featureTableRows [] (Some err) = Inl err"
| "featureTableRows (r # rs) failure =
     (case descriptor_of r of
        Inl err \<Rightarrow> Inl err
      | Inr d \<Rightarrow>
          (case featureTableRows rs failure of
             Inl err \<Rightarrow> Inl err
           | Inr ds \<Rightarrow> Inr (d # ds)))"

definition readFeatureTables :: "database \<Rightarrow> js_error + table_descriptor list" where
  "readFeatureTables db =
     (case db catalog_sql of
        Inl err \<Rightarrow> Inl err
      | Inr (rs, failure) \<Rightarrow> featureTableRows rs failure)"

subsection \<open>The styles\<close>

text \<open>\<open>sldsFromGpkg[row[0]] = row[1]\<close> for every row of \<open>layer_styles\<close>.\<close>

definition style_pair :: "row \<Rightarrow> string \<times> js_value" where
  "style_pair r = (js_ToString (array_get (stmt_get r) 0), array_get (stmt_get r) 1)"

fun styleRows ::
  "row list \<Rightarrow> js_error option \<Rightarrow> (string \<rightharpoonup> js_value) \<Rightarrow> js_error + (string \<rightharpoonup> js_value)" where
  "styleRows [] None sldsFromGpkg = Inr sldsFromGpkg"
| "styleRows [] (Some err) sldsFromGpkg = Inl err"
| "styleRows (r # rs) failure sldsFromGpkg =
     styleRows rs failure (obj_set sldsFromGpkg (fst (style_pair r)) (snd (style_pair r)))"

text \<open>
  The probe and, when its first \<open>stmt.step()\<close> is true, the second statement. The result
  comes with the statements submitted.
\<close>

definition extractStyles :: "database \<Rightarrow> (js_error + (string \<rightharpoonup> js_value)) \<times> string list" where
  "extractStyles db =
     (case db styles_probe_sql of
        Inl err \<Rightarrow> (Inl err, [styles_probe_sql])
      | Inr ([], Some err) \<Rightarrow> (Inl err, [styles_probe_sql])
      | Inr ([], None) \<Rightarrow> (Inr Map.empty, [styles_probe_sql])
      | Inr (r # rs, failure) \<Rightarrow>
          (case db styles_sql of
             Inl err \<Rightarrow> (Inl err, [styles_probe_sql, styles_sql])
           | Inr (rs', failure') \<Rightarrow>
               (styleRows rs' failure' Map.empty, [styles_probe_sql, styles_sql])))"

subsection \<open>The feature tables\<close>

text \<open>
  \<open>parseGpkgGeom\<close> on the value found in the geometry column. Reading index 3 of
  \<open>undefined\<close> or \<open>null\<close> throws. A number has no index 3, and a character of a string
  converts to at most 9, whose field is at most 4: the switch does not throw, and the call
  of \<open>subarray\<close>, which neither has, does. The same holds for a function or object
  inherited from \<open>Object.prototype\<close>.
\<close>

definition not_a_typed_array :: js_error where
  "not_a_typed_array = TypeError ''gpkgBinGeom.subarray is not a function''"

fun parseGpkgGeom_value :: "js_value \<Rightarrow> js_error + bytes" where
  "parseGpkgGeom_value (JsBytes b) = parseGpkgGeom b"
| "parseGpkgGeom_value JsUndefined =
     Inl (TypeError ''Cannot read properties of undefined (reading '3')'')"
| "parseGpkgGeom_value JsNull =
     Inl (TypeError ''Cannot read properties of null (reading '3')'')"
| "parseGpkgGeom_value (JsNumber i) = Inl not_a_typed_array"
| "parseGpkgGeom_value (JsFloat s) = Inl not_a_typed_array"
| "parseGpkgGeom_value (JsString s) = Inl not_a_typed_array"

text \<open>
  \<open>parseGpkgGeom(properties[geometry_column_name])\<close>: the read finds the row's own
  column, or else what \<open>Object.prototype\<close> has under that name, or else \<open>undefined\<close>.
\<close>

definition parseGpkgGeom_property :: "(string \<rightharpoonup> js_value) \<Rightarrow> string \<Rightarrow> js_error + bytes" where
  "parseGpkgGeom_property obj key =
     (case obj key of
        Some geomProp \<Rightarrow> parseGpkgGeom_value geomProp
      | None \<Rightarrow>
          if key \<in> set object_prototype_names then Inl not_a_typed_array
          else parseGpkgGeom_value JsUndefined)"

text \<open>The body of the \<open>while (stmt.step())\<close> over one table: the features of one row.\<close>

definition featuresOfRow ::
  "'g ol_env \<Rightarrow> string \<Rightarrow> string \<Rightarrow> string \<Rightarrow> row \<Rightarrow> js_error + 'g feature list" where
  "featuresOfRow env geometry_column tableDataProjection displayProjection r =
     (let properties0 = getAsObject r;
          properties1 = properties0(geometry_column := None)
      in case parseGpkgGeom_property properties0 geometry_column of
           Inl err \<Rightarrow> Inl err
         | Inr featureWkb \<Rightarrow>
             (case readFeatures env featureWkb tableDataProjection displayProjection of
                Inl err \<Rightarrow> Inl err
              | Inr geoms \<Rightarrow>
                  (case map new_Feature geoms of
                     [] \<Rightarrow> Inl (TypeError
                       ''Cannot read properties of undefined (reading 'setProperties')'')
                   | f # fs \<Rightarrow>
                       (case setProperties f properties1 of
                          Inl err \<Rightarrow> Inl err
                        | Inr f' \<Rightarrow> Inr (f' # fs)))))"

fun tableRows ::
  "'g ol_env \<Rightarrow> string \<Rightarrow> string \<Rightarrow> string \<Rightarrow> row list \<Rightarrow> js_error option \<Rightarrow>
   'g feature list \<Rightarrow> js_error + 'g feature list" where
  "tableRows env gc dp fp [] None acc = Inr acc"
| "tableRows env gc dp fp [] (Some err) acc = Inl err"
| "tableRows env gc dp fp (r # rs) failure acc =
     (case featuresOfRow env gc dp fp r of
        Inl err \<Rightarrow> Inl err
      | Inr fs \<Rightarrow> tableRows env gc dp fp rs failure (acc @ fs))"

text \<open>
  The \<open>for (let table of featureTableNames)\<close> loop, with \<open>dataFromGpkg\<close> and the
  statements submitted so far as accumulators.
\<close>

fun extractTables ::
  "'g ol_env \<Rightarrow> database \<Rightarrow> string \<Rightarrow> table_descriptor list \<Rightarrow>
   (string \<rightharpoonup> 'g vector_source) \<Rightarrow> string list \<Rightarrow>
   (js_error + (string \<rightharpoonup> 'g vector_source)) \<times> string list" where
  "extractTables env db displayProjection [] dataFromGpkg submitted =
     (Inr dataFromGpkg, submitted)"
| "extractTables env db displayProjection (t # ts) dataFromGpkg submitted =
     (let name = js_ToString (table_name t);
          tableDataProjection = ''EPSG:'' @ srs_id t
      in if \<not> ol_proj_get env tableDataProjection
         then (Inl (UnknownSourceProjection tableDataProjection name), submitted)
         else
           (case db (table_sql name) of
              Inl err \<Rightarrow> (Inl err, submitted @ [table_sql name])
            | Inr (rs, failure) \<Rightarrow>
                (case tableRows env (js_ToString (geometry_column_name t))
                        tableDataProjection displayProjection rs failure [] of
                   Inl err \<Rightarrow> (Inl err, submitted @ [table_sql name])
                 | Inr fs \<Rightarrow>
                     extractTables env db displayProjection ts
                       (obj_set dataFromGpkg name
                          \<lparr>features = fs,
                           properties = [''origProjection'' \<mapsto> tableDataProjection]\<rparr>)
                       (submitted @ [table_sql name]))))"

text \<open>
  The whole function: the \<open>try\<close> block, whose every throw is wrapped, then the styles,
  then the tables. The second component lists the statements submitted to the engine.
\<close>

definition processGpkgData ::
  "'g ol_env \<Rightarrow> string \<Rightarrow> bytes \<Rightarrow> sqlWasm \<Rightarrow> string \<Rightarrow>
   (js_error + ((string \<rightharpoonup> 'g vector_source) \<times> (string \<rightharpoonup> js_value))) \<times> string list" where
  "processGpkgData env loadedGpkgFile gpkgByteArray sqlWasm displayProjection =
     (case sqlWasm gpkgByteArray of
        Inl err \<Rightarrow> (Inl (CatalogExtractionFailed err), [])
      | Inr db \<Rightarrow>
          (case readFeatureTables db of
             Inl err \<Rightarrow> (Inl (CatalogExtractionFailed err), [catalog_sql])
           | Inr featureTableNames \<Rightarrow>
               (case extractStyles db of
                  (Inl err, submitted) \<Rightarrow> (Inl err, catalog_sql # submitted)
                | (Inr sldsFromGpkg, submitted) \<Rightarrow>
                    (case extractTables env db displayProjection featureTableNames Map.empty
                            (catalog_sql # submitted) of
                       (Inl err, submitted') \<Rightarrow> (Inl err, submitted')
                     | (Inr dataFromGpkg, submitted') \<Rightarrow>
                         (Inr (dataFromGpkg, sldsFromGpkg), submitted')))))"

section \<open>Promises\<close>

text \<open>
  A promise is described by its state at the moment it is looked at. A combinator maps
  the states of the promises it waits for to the state of the promise it returns, so one
  definition describes the returned promise at every moment.
\<close>

datatype 'a promise = Pending | Fulfilled 'a | Rejected js_error

text \<open>An entry of the array that \<open>Promise.allSettled\<close> delivers.\<close>

datatype 'a settled = Status_fulfilled 'a | Status_rejected js_error

text \<open>\<open>Promise.allSettled([p, q])\<close>: pending until both have settled, never rejected.\<close>

fun allSettled :: "'a promise \<Rightarrow> 'b promise \<Rightarrow> ('a settled \<times> 'b settled) promise" where
  "allSettled Pending q = Pending"
| "allSettled p Pending = Pending"
| "allSettled (Fulfilled a) (Fulfilled b) = Fulfilled (Status_fulfilled a, Status_fulfilled b)"
| "allSettled (Fulfilled a) (Rejected e) = Fulfilled (Status_fulfilled a, Status_rejected e)"
| "allSettled (Rejected d) (Fulfilled b) = Fulfilled (Status_rejected d, Status_fulfilled b)"
| "allSettled (Rejected d) (Rejected e) = Fulfilled (Status_rejected d, Status_rejected e)"

text \<open>\<open>p.then(callback)\<close>, for a callback that returns a value or throws.\<close>

fun promise_then :: "'a promise \<Rightarrow> ('a \<Rightarrow> js_error + 'b) \<Rightarrow> 'b promise" where
  "promise_then Pending callback = Pending"
| "promise_then (Rejected e) callback = Rejected e"
| "promise_then (Fulfilled v) callback =
     (case callback v of Inl err \<Rightarrow> Rejected err | Inr x \<Rightarrow> Fulfilled x)"

text \<open>\<open>await p\<close> followed by the rest of an async function.\<close>

fun await :: "'a promise \<Rightarrow> ('a \<Rightarrow> 'b promise) \<Rightarrow> 'b promise" where
  "await Pending rest = Pending"
| "await (Rejected e) rest = Rejected e"
| "await (Fulfilled v) rest = rest v"

section \<open>\<open>readRawGpkg\<close>\<close>

text \<open>
  What the function uses of a \<open>Blob\<close> or of a fetch \<open>Response\<close>: whether it has a
  \<open>bytes\<close> method, and the promises its \<open>bytes()\<close> and \<open>arrayBuffer()\<close> return.
\<close>

record body_source =
  has_bytes :: bool
  bytes_result :: "bytes promise"
  arrayBuffer_result :: "bytes promise"

record response =
  ok :: bool
  status :: nat
  statusText :: string
  body :: body_source

text \<open>
  The argument \<open>gpkgFile\<close>: a string, a \<open>URL\<close> (its href), a \<open>File\<close> (its name; a
  \<open>File\<close> is a \<open>Blob\<close>), a \<open>Blob\<close>, or any other value.
\<close>

datatype gpkg_input =
  InputString string | InputURL string | InputFile string body_source
  | InputBlob body_source | InputOther

datatype effect = NetworkFetch string

text \<open>The \<open>try\<close> block: any failure of the read is wrapped.\<close>

definition readBody :: "body_source \<Rightarrow> bytes promise" where
  "readBody gpkgSource =
     (case (if has_bytes gpkgSource then bytes_result gpkgSource
            else arrayBuffer_result gpkgSource) of
        Rejected error \<Rightarrow> Rejected (BodyReadFailed error)
      | Fulfilled b \<Rightarrow> Fulfilled b
      | Pending \<Rightarrow> Pending)"

definition fetchAndRead :: "(string \<Rightarrow> response promise) \<Rightarrow> string \<Rightarrow> bytes promise \<times> effect list" where
  "fetchAndRead fetch input =
     (await (fetch input)
        (\<lambda>response.
           if \<not> ok response
           then Rejected (SourceUnreachable input (status response) (statusText response))
           else readBody (body response)),
      [NetworkFetch input])"

text \<open>The returned promise and the network requests made.\<close>

fun readRawGpkg :: "(string \<Rightarrow> response promise) \<Rightarrow> gpkg_input \<Rightarrow> bytes promise \<times> effect list" where
  "readRawGpkg fetch (InputBlob blob) = (readBody blob, [])"
| "readRawGpkg fetch (InputFile name blob) = (readBody blob, [])"
| "readRawGpkg fetch (InputString url) = fetchAndRead fetch url"
| "readRawGpkg fetch (InputURL href) = fetchAndRead fetch href"
| "readRawGpkg fetch InputOther = (Rejected InvalidInputKind, [])"

section \<open>\<open>initSqlJsWasm\<close> and \<open>loadGpkg\<close>\<close>

text \<open>The module's variable \<open>promiseSqlWasmLoaded\<close>; \<open>None\<close> is \<open>undefined\<close>.\<close>

record module_state =
  promiseSqlWasmLoaded :: "sqlWasm promise option"

text \<open>
  \<open>initSqlJs\<close> is sql.js's loader, given the \<open>locateFile\<close> function. The result is the
  returned promise, the new state and what was written to the console.
\<close>

definition initSqlJsWasm ::
  "((string \<Rightarrow> string) \<Rightarrow> sqlWasm promise) \<Rightarrow> string option \<Rightarrow> module_state \<Rightarrow>
   sqlWasm promise \<times> module_state \<times> string list" where
  "initSqlJsWasm initSqlJs sqlJsWasmDir_arg st =
     (let sqlJsWasmDir = (case sqlJsWasmDir_arg of None \<Rightarrow> [] | Some d \<Rightarrow> d);
          p = initSqlJs (\<lambda>file. sqlJsWasmDir @ ''/'' @ file)
      in (p, st\<lparr>promiseSqlWasmLoaded := Some p\<rparr>,
          (case p of
             Rejected error \<Rightarrow>
               [''initSqlJsWasm() unable to load SQLite JS binary '' @
                ''(sql-wasm.wasm) from URL folder:\<newline>'' @
                ''  '' @ sqlJsWasmDir @ ''/\<newline>'' @ error_toString error]
           | _ \<Rightarrow> [])))"

datatype 'a completion = Threw js_error | Returned 'a

text \<open>
  \<open>gpkgFile instanceof File ? gpkgFile.name : gpkgFile.toString()\<close>. The last case is
  not reached: \<open>readRawGpkg\<close> has rejected such an input.
\<close>

fun gpkgFileName_of :: "gpkg_input \<Rightarrow> string" where
  "gpkgFileName_of (InputFile name blob) = name"
| "gpkgFileName_of (InputString url) = url"
| "gpkgFileName_of (InputURL href) = href"
| "gpkgFileName_of (InputBlob blob) = ''[object Blob]''"
| "gpkgFileName_of InputOther = ''[object Object]''"

text \<open>The callback given to \<open>then\<close>.\<close>

definition on_settled ::
  "'g ol_env \<Rightarrow> gpkg_input \<Rightarrow> string \<Rightarrow> sqlWasm settled \<times> bytes settled \<Rightarrow>
   js_error + ((string \<rightharpoonup> 'g vector_source) \<times> (string \<rightharpoonup> js_value))" where
  "on_settled env gpkgFile displayProjection results =
     (case fst results of
        Status_rejected reason \<Rightarrow> Inl (WasmLoadFailed reason)
      | Status_fulfilled sqlWasm \<Rightarrow>
          (case snd results of
             Status_rejected reason \<Rightarrow> Inl reason
           | Status_fulfilled gpkgByteArray \<Rightarrow>
               fst (processGpkgData env (gpkgFileName_of gpkgFile) gpkgByteArray sqlWasm
                      displayProjection)))"

text \<open>
  \<open>loadGpkg\<close>: what the call does synchronously (a throw, or the promise it returns),
  the network requests it makes, and the module state after it.
\<close>

definition loadGpkg ::
  "'g ol_env \<Rightarrow> (string \<Rightarrow> response promise) \<Rightarrow> module_state \<Rightarrow> gpkg_input \<Rightarrow> string \<Rightarrow>
   (((string \<rightharpoonup> 'g vector_source) \<times> (string \<rightharpoonup> js_value)) promise completion \<times> effect list)
   \<times> module_state" where
  "loadGpkg env fetch st gpkgFile displayProjection =
     (case promiseSqlWasmLoaded st of
        None \<Rightarrow> ((Threw WasmNotInitialized, []), st)
      | Some wasmPromise \<Rightarrow>
          if \<not> ol_proj_get env displayProjection
          then ((Threw (UnknownDisplayProjection displayProjection), []), st)
          else
            (let (gpkgReadPromise, effects) = readRawGpkg fetch gpkgFile
             in ((Returned (promise_then (allSettled wasmPromise gpkgReadPromise)
                              (on_settled env gpkgFile displayProjection)),
                  effects), st)))"

section \<open>A small package, for concrete evaluation\<close>

text \<open>
  Three projections are registered; the decoder of the example hands the WKB bytes back
  as the one geometry.
\<close>

definition example_ol :: "bytes ol_env" where
  "example_ol =
     \<lparr>ol_proj_get = (\<lambda>code. code = ''EPSG:3857'' \<or> code = ''EPSG:4326'' \<or> code = ''EPSG:27700''),
      readFeatures = (\<lambda>wkb dataProjection featureProjection. Inr [wkb])\<rparr>"

definition catalog_row :: "string \<Rightarrow> int \<Rightarrow> string \<Rightarrow> row" where
  "catalog_row name srs col =
     [(''table_name'', JsString name), (''srs_id'', JsNumber srs), (''column_name'', JsString col)]"

definition style_row :: "string \<Rightarrow> string \<Rightarrow> row" where
  "style_row name sld = [(''f_table_name'', JsString name), (''styleSLD'', JsString sld)]"

text \<open>
  A database with the tables \<open>roads\<close> (one row) and \<open>buildings\<close> (no row); the rows of
  the catalog join and of \<open>layer_styles\<close> are parameters, and \<open>layer_styles\<close> is listed
  in the contents exactly when it has rows.
\<close>

definition example_db :: "row list \<Rightarrow> row list \<Rightarrow> database" where
  "example_db catalog styles sql =
     (if sql = catalog_sql then Inr (catalog, None)
      else if sql = styles_probe_sql
      then Inr (if styles = [] then [] else [[(''table_name'', JsString ''layer_styles'')]], None)
      else if sql = styles_sql
      then (if styles = [] then Inl (Error ''no such table: layer_styles'') else Inr (styles, None))
      else if sql = table_sql ''roads''
      then Inr ([[(''fid'', JsNumber 1),
                  (''geom'', JsBytes [71, 80, 0, 1, 230, 16, 0, 0, 1, 1, 0, 0, 0]),
                  (''name'', JsString ''A1'')]], None)
      else if sql = table_sql ''buildings'' then Inr ([], None)
      else Inl (Error ''no such table''))"

definition example_sqlWasm :: "row list \<Rightarrow> row list \<Rightarrow> sqlWasm" where
  "example_sqlWasm catalog styles = (\<lambda>gpkgByteArray. Inr (example_db catalog styles))"

text \<open>
  A package given by what its statements deliver: the rows of the catalog join, whether
  the contents catalog lists \<open>layer_styles\<close>, the rows of the table \<open>layer_styles\<close> if
  that table exists, and the rows of the feature tables by name.
\<close>

definition package_db ::
  "row list \<Rightarrow> bool \<Rightarrow> row list option \<Rightarrow> (string \<times> row list) list \<Rightarrow> database" where
  "package_db catalog styles_listed layer_styles tables sql =
     (if sql = catalog_sql then Inr (catalog, None)
      else if sql = styles_probe_sql
      then Inr (if styles_listed then [[(''table_name'', JsString ''layer_styles'')]] else [], None)
      else if sql = styles_sql
      then (case layer_styles of
              None \<Rightarrow> Inl (Error ''no such table: layer_styles'')
            | Some rows \<Rightarrow> Inr (rows, None))
      else
        (case map_of (map (\<lambda>(name, rows). (table_sql name, rows)) tables) sql of
           None \<Rightarrow> Inl (Error ''no such table'')
         | Some rows \<Rightarrow> Inr (rows, None)))"

definition package_sqlWasm ::
  "row list \<Rightarrow> bool \<Rightarrow> row list option \<Rightarrow> (string \<times> row list) list \<Rightarrow> sqlWasm" where
  "package_sqlWasm catalog styles_listed layer_styles tables =
     (\<lambda>gpkgByteArray. Inr (package_db catalog styles_listed layer_styles tables))"

text \<open>A row of a table \<open>roads\<close> that has two geometry columns.\<close>

definition two_geometry_row :: row where
  "two_geometry_row =
     [(''fid'', JsNumber 1),
      (''geom'', JsBytes [71, 80, 0, 1, 230, 16, 0, 0, 1, 1, 0, 0, 0]),
      (''geom2'', JsBytes [71, 80, 0, 1, 230, 16, 0, 0, 1, 2, 0, 0, 0])]"

definition example_blob :: body_source where
  "example_blob = \<lparr>has_bytes = True, bytes_result = Fulfilled [83, 81, 76], arrayBuffer_result = Pending\<rparr>"

definition not_found :: response where
  "not_found = \<lparr>ok = False, status = 404, statusText = ''Not Found'', body = example_blob\<rparr>"

section \<open>Properties of the envelope parser\<close>

lemma signed_shift_of_byte:
  "signed_drop_bit 1 (ucast (b :: u8) :: int32) = drop_bit 1 (ucast b :: int32)"
proof (rule bit_word_eqI)
  fix n assume "n < LENGTH(32)"
  then show "bit (signed_drop_bit 1 (ucast b :: int32)) n = bit (drop_bit 1 (ucast b :: int32)) n"
    using bit_imp_le_length [of b 31] bit_imp_le_length [of b "Suc n"]
    by (auto simp add: bit_simps)
qed

lemma and_seven_int32: "(w :: int32) AND 7 = take_bit 3 w"
  by (simp add: take_bit_eq_mask mask_eq_exp_minus_1)

lemma unat_byte_less: "unat (b :: u8) < 256"
  using unsigned_less [of b, where ?'a = nat] by simp

text \<open>The 32-bit computation of the field is the arithmetic one on the byte's value.\<close>

lemma unat_field_of_byte:
  "unat (signed_drop_bit 1 (ucast (b :: u8) :: int32) AND 7) = unat b div 2 mod 8"
proof -
  have "signed_drop_bit 1 (ucast b :: int32) AND 7 = take_bit 3 (drop_bit 1 (ucast b :: int32))"
    by (simp only: signed_shift_of_byte and_seven_int32)
  then show ?thesis
    using unat_byte_less [of b]
    by (simp add: drop_bit_eq_div take_bit_eq_mod unat_div unat_mod unsigned_ucast_eq)
qed

lemma unat_eFlags_of:
  "3 < length cell \<Longrightarrow> unat (eFlags_of cell) = unat (cell ! 3) div 2 mod 8"
  using unat_field_of_byte [of "cell ! 3"]
  by (simp add: eFlags_of_def typed_array_get_def toInt32_def)

lemma eFlags_of_short: "length cell < 4 \<Longrightarrow> eFlags_of cell = 0"
  by (simp add: eFlags_of_def typed_array_get_def toInt32_def)

lemma envelopeSize_of_unat:
  "envelopeSize_of w =
     (if unat w = 0 then Inr 0
      else if unat w = 1 then Inr 32
      else if unat w = 2 \<or> unat w = 3 then Inr 48
      else if unat w = 4 then Inr 64
      else Inl InvalidEnvelopeFlag)"
proof -
  have "w = k \<longleftrightarrow> unat w = unat k" for k :: int32
    by (simp add: word_unat_eq_iff)
  from this [of 0] this [of 1] this [of 2] this [of 3] this [of 4]
  show ?thesis
    by (simp add: envelopeSize_of_def)
qed

lemma subarray_eq_drop: "subarray a n = drop n a"
  by (simp add: subarray_def min_def)

lemma wkbOffset_of_cases:
  "wkbOffset_of cell = Inr off \<Longrightarrow> off \<in> {8, 40, 56, 72}"
  by (auto simp: wkbOffset_of_def envelopeSize_of_def split: if_splits)

text \<open>
  C1. For a cell that has a byte at offset 3, let \<open>e\<close> be the 3-bit field
  \<open>(flags >> 1) & 7\<close> of that byte, that is \<open>(flags div 2) mod 8\<close>. For \<open>e\<close> = 0, 1, 2, 3, 4
  the parser returns the cell from byte offset 8, 40, 56, 56, 72 on, and for
  \<open>e\<close> = 5, 6, 7 it fails with \<open>InvalidEnvelopeFlag\<close>.
\<close>

theorem parseGpkgGeom_offset_table:
  assumes "3 < length cell" and "e = unat (cell ! 3) div 2 mod 8"
  shows "(e = 0 \<longrightarrow> parseGpkgGeom cell = Inr (drop 8 cell)) \<and>
         (e = 1 \<longrightarrow> parseGpkgGeom cell = Inr (drop 40 cell)) \<and>
         (e = 2 \<longrightarrow> parseGpkgGeom cell = Inr (drop 56 cell)) \<and>
         (e = 3 \<longrightarrow> parseGpkgGeom cell = Inr (drop 56 cell)) \<and>
         (e = 4 \<longrightarrow> parseGpkgGeom cell = Inr (drop 72 cell)) \<and>
         (e \<in> {5, 6, 7} \<longrightarrow> parseGpkgGeom cell = Inl InvalidEnvelopeFlag) \<and>
         e < 8"
proof -
  have "unat (eFlags_of cell) = e"
    using assms by (simp add: unat_eFlags_of)
  then show ?thesis
    using assms(2)
    by (auto simp: parseGpkgGeom_def wkbOffset_of_def envelopeSize_of_unat subarray_eq_drop)
qed

theorem parseGpkgGeom_offset_table_witness:
  "parseGpkgGeom [71, 80, 0, 1, 0, 0, 0, 0, 1, 2, 3] = Inr [1, 2, 3] \<and>
   parseGpkgGeom [71, 80, 0, 11, 0, 0, 0, 0, 1, 2, 3] = Inl InvalidEnvelopeFlag"
  using parseGpkgGeom_offset_table [of "[71, 80, 0, 1, 0, 0, 0, 0, 1, 2, 3]" 0]
    parseGpkgGeom_offset_table [of "[71, 80, 0, 11, 0, 0, 0, 0, 1, 2, 3]" 5]
  by simp

lemma wkbOffset_of_flags_only:
  "typed_array_get cell' 3 = typed_array_get cell 3 \<Longrightarrow> wkbOffset_of cell' = wkbOffset_of cell"
  by (simp add: wkbOffset_of_def eFlags_of_def)

lemma length_subarray: "int (length (subarray a n)) = max 0 (int (length a) - int n)"
  by (simp add: subarray_def min_def)

text \<open>
  C2, as stated, at a cell of 4 bytes with envelope field 0: the offset is 8, the returned
  slice is empty, and its length 0 is not \<open>L - offset = 4 - 8\<close>.
\<close>

theorem parseGpkgGeom_length_counterexample:
  "wkbOffset_of [71, 80, 0, 0] = Inr 8 \<and>
   parseGpkgGeom [71, 80, 0, 0] = Inr [] \<and>
   int (length ([] :: bytes)) \<noteq> int (length [71 :: u8, 80, 0, 0]) - int 8"
  by (simp add: parseGpkgGeom_def wkbOffset_of_def envelopeSize_of_def eFlags_of_def
      typed_array_get_def toInt32_def subarray_def)

text \<open>
  C2, amended. When the parser returns a payload for a cell of length \<open>L\<close>, the payload has
  length \<open>L - offset\<close> if \<open>L \<ge> offset\<close> and 0 otherwise, where \<open>offset\<close> is the offset the
  parser computed; and every cell with the same byte (or the same absence of a byte) at
  offset 3 gets the same offset.
\<close>

theorem parseGpkgGeom_payload_length:
  assumes "parseGpkgGeom cell = Inr payload"
  shows "\<exists>off. wkbOffset_of cell = Inr off \<and>
           int (length payload) = max 0 (int (length cell) - int off) \<and>
           (\<forall>cell'. typed_array_get cell' 3 = typed_array_get cell 3 \<longrightarrow>
              wkbOffset_of cell' = Inr off)"
proof (cases "wkbOffset_of cell")
  case (Inl err)
  with assms show ?thesis
    by (simp add: parseGpkgGeom_def)
next
  case (Inr off)
  with assms have "payload = subarray cell off"
    by (simp add: parseGpkgGeom_def)
  moreover have "wkbOffset_of cell' = Inr off"
    if "typed_array_get cell' 3 = typed_array_get cell 3" for cell'
    using wkbOffset_of_flags_only [OF that] Inr by simp
  ultimately show ?thesis
    using Inr by (simp add: length_subarray)
qed

theorem parseGpkgGeom_payload_length_witness:
  "\<exists>off. wkbOffset_of [71, 80, 0, 1, 0, 0, 0, 0, 1, 2, 3] = Inr off \<and>
     int (length [1 :: u8, 2, 3]) = max 0 (int (length [71 :: u8, 80, 0, 1, 0, 0, 0, 0, 1, 2, 3]) - int off) \<and>
     (\<forall>cell'. typed_array_get cell' 3 = typed_array_get [71, 80, 0, 1, 0, 0, 0, 0, 1, 2, 3] 3 \<longrightarrow>
        wkbOffset_of cell' = Inr off)"
proof -
  have "parseGpkgGeom [71, 80, 0, 1, 0, 0, 0, 0, 1, 2, 3] = Inr [1, 2, 3]"
    by (simp add: parseGpkgGeom_def wkbOffset_of_def envelopeSize_of_def eFlags_of_def
        typed_array_get_def toInt32_def subarray_def)
  then show ?thesis
    by (rule parseGpkgGeom_payload_length)
qed

text \<open>
  C10. The parser has no length check. A cell shorter than 4 bytes has no byte at offset 3
  (the read gives \<open>undefined\<close>), its 3-bit field is 0, and the parser returns the slice from
  offset 8, which is empty. For every cell whose field is valid and whose length is at most
  the offset \<open>8 + envelope size\<close>, the parser returns the empty slice and no error.
\<close>

theorem parseGpkgGeom_truncated:
  "(length cell < 4 \<longrightarrow>
      typed_array_get cell 3 = None \<and> eFlags_of cell = 0 \<and>
      parseGpkgGeom cell = Inr (subarray cell 8) \<and> subarray cell 8 = []) \<and>
   (\<forall>off. wkbOffset_of cell = Inr off \<and> length cell \<le> off \<longrightarrow> parseGpkgGeom cell = Inr [])"
proof (intro conjI impI allI)
  assume "length cell < 4"
  then show "typed_array_get cell 3 = None"
    by (simp add: typed_array_get_def)
next
  assume "length cell < 4"
  then show "eFlags_of cell = 0"
    by (rule eFlags_of_short)
next
  assume "length cell < 4"
  then have "wkbOffset_of cell = Inr 8"
    by (simp add: wkbOffset_of_def envelopeSize_of_def eFlags_of_short)
  then show "parseGpkgGeom cell = Inr (subarray cell 8)"
    by (simp add: parseGpkgGeom_def)
next
  assume "length cell < 4"
  then show "subarray cell 8 = []"
    by (simp add: subarray_def)
next
  fix off
  assume "wkbOffset_of cell = Inr off \<and> length cell \<le> off"
  then show "parseGpkgGeom cell = Inr []"
    by (simp add: parseGpkgGeom_def subarray_def)
qed

theorem parseGpkgGeom_truncated_witness:
  "parseGpkgGeom [71, 80] = Inr [] \<and> eFlags_of [71, 80] = 0 \<and>
   parseGpkgGeom [71, 80, 0, 3, 0, 0, 0, 0, 9, 9] = Inr []"
proof -
  have "wkbOffset_of [71, 80, 0, 3, 0, 0, 0, 0, 9, 9] = Inr 40"
    by (simp add: wkbOffset_of_def envelopeSize_of_def eFlags_of_def typed_array_get_def toInt32_def)
  then show ?thesis
    using parseGpkgGeom_truncated [of "[71, 80]"]
      parseGpkgGeom_truncated [of "[71, 80, 0, 3, 0, 0, 0, 0, 9, 9]"]
    by (simp add: subarray_def)
qed

section \<open>Properties of \<open>processGpkgData\<close>\<close>











lemma styleRows_Inr:
  assumes "styleRows rs failure slds0 = Inr slds"
  shows "failure = None \<and>
         slds = slds0 ++ map_of (rev (filter (\<lambda>p. fst p \<noteq> ''__proto__'') (map style_pair rs)))"
  using assms
proof (induction rs arbitrary: slds0)
  case Nil
  then show ?case by (cases failure) auto
next
  case (Cons r rs)
  let ?k = "fst (style_pair r)" and ?v = "snd (style_pair r)"
  let ?later = "map_of (rev (filter (\<lambda>p. fst p \<noteq> ''__proto__'') (map style_pair rs)))"
  from Cons.prems have "styleRows rs failure (obj_set slds0 ?k ?v) = Inr slds"
    by simp
  from Cons.IH [OF this] have none: "failure = None"
    and eq: "slds = obj_set slds0 ?k ?v ++ ?later"
    by blast+
  have "obj_set slds0 ?k ?v ++ ?later =
        slds0 ++ map_of (rev (filter (\<lambda>p. fst p \<noteq> ''__proto__'') (map style_pair (r # rs))))"
    by (simp add: obj_set_def)
  with none eq show ?case
    by (simp only:)
qed

lemma graph_map_of_rev:
  assumes "distinct (map fst ps)"
  shows "Map.graph (map_of (rev ps)) = set ps"
proof -
  have "distinct (map fst (rev ps))"
    using assms by (simp add: rev_map [symmetric])
  then have "Map.graph (map_of (rev ps)) = set (rev ps)"
    by (rule graph_map_of_if_distinct_dom)
  then show ?thesis by simp
qed

lemma extractStyles_Inr:
  assumes "extractStyles db = (Inr slds, sub)"
  shows "(db styles_probe_sql = Inr ([], None) \<and> slds = Map.empty \<and> sub = [styles_probe_sql]) \<or>
         (\<exists>r rs failure rows. db styles_probe_sql = Inr (r # rs, failure) \<and>
            db styles_sql = Inr (rows, None) \<and>
            slds = map_of (rev (filter (\<lambda>p. fst p \<noteq> ''__proto__'') (map style_pair rows))) \<and>
            sub = [styles_probe_sql, styles_sql])"
proof (cases "db styles_probe_sql")
  case (Inl err)
  with assms show ?thesis
    by (simp add: extractStyles_def)
next
  case (Inr stmt)
  obtain probe failure where stmt: "stmt = (probe, failure)"
    by (cases stmt)
  show ?thesis
  proof (cases probe)
    case Nil
    with assms Inr stmt show ?thesis
      by (cases failure) (auto simp: extractStyles_def)
  next
    case (Cons r rs)
    with assms Inr stmt obtain rows failure' where
      q: "db styles_sql = Inr (rows, failure')" and
      s: "styleRows rows failure' Map.empty = Inr slds" and
      u: "sub = [styles_probe_sql, styles_sql]"
      by (auto simp: extractStyles_def split: sum.splits prod.splits)
    from styleRows_Inr [OF s] have "failure' = None"
      and "slds = map_of (rev (filter (\<lambda>p. fst p \<noteq> ''__proto__'') (map style_pair rows)))"
      by simp_all
    with Inr stmt Cons q u show ?thesis
      by simp
  qed
qed

lemma processGpkgData_Inr:
  assumes "sqlWasm gpkgByteArray = Inr db"
    and "processGpkgData env loadedGpkgFile gpkgByteArray sqlWasm dp = (Inr (data, slds), sub)"
  shows "\<exists>tables sub0. readFeatureTables db = Inr tables \<and>
           extractStyles db = (Inr slds, sub0) \<and>
           extractTables env db dp tables Map.empty (catalog_sql # sub0) = (Inr data, sub)"
  using assms
  by (auto simp: processGpkgData_def split: sum.splits prod.splits)

lemma sql_distinct:
  "catalog_sql \<noteq> styles_probe_sql" "catalog_sql \<noteq> styles_sql" "styles_probe_sql \<noteq> styles_sql"
  "styles_probe_sql \<noteq> catalog_sql" "styles_sql \<noteq> catalog_sql" "styles_sql \<noteq> styles_probe_sql"
  "table_sql n \<noteq> catalog_sql" "table_sql n \<noteq> styles_probe_sql" "table_sql n \<noteq> styles_sql"
  "table_sql n = table_sql m \<longleftrightarrow> n = m"
  by (simp_all add: catalog_sql_def styles_probe_sql_def styles_sql_def table_sql_def)

lemma show_int_examples:
  "show_int 4326 = ''4326''" "show_int 27700 = ''27700''" "show_int 2154 = ''2154''"
  by (simp_all add: show_int_def show_nat.simps)

lemmas example_simps =
  processGpkgData_def example_sqlWasm_def extractStyles_def readFeatureTables_def example_db_def
  package_sqlWasm_def package_db_def two_geometry_row_def
  sql_distinct style_row_def style_pair_def stmt_get_def array_get_def catalog_row_def
  descriptor_of_def show_int_examples example_ol_def featuresOfRow_def getAsObject_def Let_def
  obj_set_def parseGpkgGeom_property_def setProperties_def new_Feature_def
  parseGpkgGeom_def wkbOffset_of_def envelopeSize_of_def eFlags_of_def typed_array_get_def
  toInt32_def subarray_def













text \<open>
  C6, as stated, at three packages. In the first, \<open>layer_styles\<close> has two rows for the
  table \<open>roads\<close>: the pair \<open>(roads, <a/>)\<close> is selected, and the style mapping returned
  holds only \<open><b/>\<close> for \<open>roads\<close>. In the second, the table \<open>layer_styles\<close> exists (the
  statement that selects from it delivers the pair \<open>(roads, <sld/>)\<close>) but the contents
  catalog does not list it: the style mapping returned is empty. In the third,
  \<open>layer_styles\<close> is listed and holds one row for a table named \<open>__proto__\<close>: the pair
  is selected and the style mapping returned is empty. In none of them is the mapping the
  set of the pairs selected from the table.
\<close>

theorem styles_duplicate_counterexample:
  "fst (processGpkgData example_ol ''a.gpkg'' []
          (example_sqlWasm [] [style_row ''roads'' ''<a/>'', style_row ''roads'' ''<b/>''])
          ''EPSG:3857'') =
     Inr (Map.empty, [''roads'' \<mapsto> JsString ''<b/>'']) \<and>
   example_db [] [style_row ''roads'' ''<a/>'', style_row ''roads'' ''<b/>''] styles_sql =
     Inr ([style_row ''roads'' ''<a/>'', style_row ''roads'' ''<b/>''], None) \<and>
   style_pair (style_row ''roads'' ''<a/>'') = (''roads'', JsString ''<a/>'') \<and>
   [''roads'' \<mapsto> JsString ''<b/>''] ''roads'' \<noteq> Some (JsString ''<a/>'') \<and>
   package_db [] False (Some [style_row ''roads'' ''<sld/>'']) [] styles_sql =
     Inr ([style_row ''roads'' ''<sld/>''], None) \<and>
   package_db [] False (Some [style_row ''roads'' ''<sld/>'']) [] styles_probe_sql =
     Inr ([], None) \<and>
   fst (processGpkgData example_ol ''a.gpkg'' []
          (package_sqlWasm [] False (Some [style_row ''roads'' ''<sld/>'']) [])
          ''EPSG:3857'') =
     Inr (Map.empty, Map.empty) \<and>
   package_db [] True (Some [style_row ''__proto__'' ''<sld/>'']) [] styles_sql =
     Inr ([style_row ''__proto__'' ''<sld/>''], None) \<and>
   style_pair (style_row ''__proto__'' ''<sld/>'') = (''__proto__'', JsString ''<sld/>'') \<and>
   fst (processGpkgData example_ol ''a.gpkg'' []
          (package_sqlWasm [] True (Some [style_row ''__proto__'' ''<sld/>'']) [])
          ''EPSG:3857'') =
     Inr (Map.empty, Map.empty)"
  by (simp add: example_simps)

text \<open>
  C6, amended. The probe is the statement that selects from the contents catalog
  \<open>gpkg_contents\<close> the rows whose \<open>table_name\<close> is \<open>layer_styles\<close>. When it delivers no
  row, the style step returns the empty mapping and no error. When a call succeeds, either
  the probe delivered no row and the style mapping is empty, or it delivered one and the
  second statement delivered the rows of \<open>layer_styles\<close> without a failure; then, if no
  selected table name is \<open>__proto__\<close>, the keys of the style mapping are the table names
  of these rows, each name is mapped to the style of the last row with that name
  (\<open>map_of\<close> on the reversed list), and when the names are distinct the mapping is exactly
  the set of the selected pairs.
\<close>

theorem processGpkgData_styles:
  "styles_probe_sql =
     ''\<newline>'' @
     ''        SELECT gpkg_contents.table_name\<newline>'' @
     ''        FROM gpkg_contents\<newline>'' @
     ''        WHERE gpkg_contents.table_name='layer_styles'\<newline>'' @
     ''    '' \<and>
   styles_sql = ''SELECT f_table_name,styleSLD FROM layer_styles'' \<and>
   (db styles_probe_sql = Inr ([], None) \<longrightarrow>
      extractStyles db = (Inr Map.empty, [styles_probe_sql])) \<and>
   (sqlWasm gpkgByteArray = Inr db \<and>
    processGpkgData env loadedGpkgFile gpkgByteArray sqlWasm displayProjection =
      (Inr (dataFromGpkg, sldsFromGpkg), submitted) \<longrightarrow>
      (db styles_probe_sql = Inr ([], None) \<and> sldsFromGpkg = Map.empty) \<or>
      (\<exists>r rs failure rows.
         db styles_probe_sql = Inr (r # rs, failure) \<and>
         db styles_sql = Inr (rows, None) \<and>
         (''__proto__'' \<notin> fst ` set (map style_pair rows) \<longrightarrow>
            sldsFromGpkg = map_of (rev (map style_pair rows)) \<and>
            dom sldsFromGpkg = fst ` set (map style_pair rows) \<and>
            (distinct (map fst (map style_pair rows)) \<longrightarrow>
               Map.graph sldsFromGpkg = set (map style_pair rows)))))"
proof (intro conjI impI)
  show "styles_probe_sql =
     ''\<newline>'' @
     ''        SELECT gpkg_contents.table_name\<newline>'' @
     ''        FROM gpkg_contents\<newline>'' @
     ''        WHERE gpkg_contents.table_name='layer_styles'\<newline>'' @
     ''    ''"
    by (simp add: styles_probe_sql_def)
  show "styles_sql = ''SELECT f_table_name,styleSLD FROM layer_styles''"
    by (simp add: styles_sql_def)
next
  assume "db styles_probe_sql = Inr ([], None)"
  then show "extractStyles db = (Inr Map.empty, [styles_probe_sql])"
    by (simp add: extractStyles_def)
next
  assume a: "sqlWasm gpkgByteArray = Inr db \<and>
    processGpkgData env loadedGpkgFile gpkgByteArray sqlWasm displayProjection =
      (Inr (dataFromGpkg, sldsFromGpkg), submitted)"
  then obtain sub0 where "extractStyles db = (Inr sldsFromGpkg, sub0)"
    using processGpkgData_Inr [of sqlWasm gpkgByteArray db env loadedGpkgFile displayProjection
        dataFromGpkg sldsFromGpkg submitted]
    by blast
  from extractStyles_Inr [OF this] consider
    (absent) "db styles_probe_sql = Inr ([], None)" "sldsFromGpkg = Map.empty"
    | (present) r rs failure rows where
        "db styles_probe_sql = Inr (r # rs, failure)" "db styles_sql = Inr (rows, None)"
        "sldsFromGpkg =
           map_of (rev (filter (\<lambda>p. fst p \<noteq> ''__proto__'') (map style_pair rows)))"
    by blast
  then show "(db styles_probe_sql = Inr ([], None) \<and> sldsFromGpkg = Map.empty) \<or>
      (\<exists>r rs failure rows.
         db styles_probe_sql = Inr (r # rs, failure) \<and>
         db styles_sql = Inr (rows, None) \<and>
         (''__proto__'' \<notin> fst ` set (map style_pair rows) \<longrightarrow>
            sldsFromGpkg = map_of (rev (map style_pair rows)) \<and>
            dom sldsFromGpkg = fst ` set (map style_pair rows) \<and>
            (distinct (map fst (map style_pair rows)) \<longrightarrow>
               Map.graph sldsFromGpkg = set (map style_pair rows))))"
  proof cases
    case absent
    then show ?thesis by simp
  next
    case present
    have rest: "sldsFromGpkg = map_of (rev (map style_pair rows)) \<and>
        dom sldsFromGpkg = fst ` set (map style_pair rows) \<and>
        (distinct (map fst (map style_pair rows)) \<longrightarrow>
           Map.graph sldsFromGpkg = set (map style_pair rows))"
      if no_proto: "''__proto__'' \<notin> fst ` set (map style_pair rows)"
    proof -
      from no_proto have "filter (\<lambda>p. fst p \<noteq> ''__proto__'') (map style_pair rows) =
          map style_pair rows"
        by (force simp: filter_id_conv image_iff)
      with present(3) have eq: "sldsFromGpkg = map_of (rev (map style_pair rows))"
        by simp
      have "dom sldsFromGpkg = fst ` set (map style_pair rows)"
        unfolding eq by (simp add: dom_map_of_conv_image_fst)
      moreover have "distinct (map fst (map style_pair rows)) \<longrightarrow>
          Map.graph sldsFromGpkg = set (map style_pair rows)"
        unfolding eq using graph_map_of_rev [of "map style_pair rows"] by blast
      ultimately show ?thesis
        using eq by blast
    qed
    from present(1,2) rest show ?thesis
      by blast
  qed
qed

theorem processGpkgData_styles_witness:
  "extractStyles (example_db [] []) = (Inr Map.empty, [styles_probe_sql]) \<and>
   (\<exists>data slds submitted.
      processGpkgData example_ol ''a.gpkg'' [] (example_sqlWasm [] [style_row ''roads'' ''<sld/>''])
        ''EPSG:3857'' = (Inr (data, slds), submitted) \<and>
      slds = [''roads'' \<mapsto> JsString ''<sld/>''] \<and>
      Map.graph slds = {(''roads'', JsString ''<sld/>'')})"
proof -
  let ?styles = "[style_row ''roads'' ''<sld/>'']"
  have probe0: "example_db [] [] styles_probe_sql = Inr ([], None)"
    by (simp add: example_simps)
  from processGpkgData_styles [where db = "example_db [] []", THEN conjunct2, THEN conjunct2,
      THEN conjunct1, THEN mp, OF probe0]
  have first: "extractStyles (example_db [] []) = (Inr Map.empty, [styles_probe_sql])" .
  have "\<exists>data slds submitted.
      processGpkgData example_ol ''a.gpkg'' [] (example_sqlWasm [] ?styles) ''EPSG:3857'' =
        (Inr (data, slds), submitted) \<and> slds = [''roads'' \<mapsto> JsString ''<sld/>'']"
    by (simp add: example_simps)
  then obtain data slds submitted where
    all: "processGpkgData example_ol ''a.gpkg'' [] (example_sqlWasm [] ?styles) ''EPSG:3857'' =
        (Inr (data, slds), submitted) \<and> slds = [''roads'' \<mapsto> JsString ''<sld/>'']"
    by (elim exE)
  then have run: "processGpkgData example_ol ''a.gpkg'' [] (example_sqlWasm [] ?styles) ''EPSG:3857'' =
        (Inr (data, slds), submitted)"
    by (rule conjunct1)
  have wasm: "example_sqlWasm [] ?styles [] = Inr (example_db [] ?styles)"
    by (simp add: example_sqlWasm_def)
  have probe: "example_db [] ?styles styles_probe_sql \<noteq> Inr ([], None)"
    by (simp add: example_simps)
  have rows: "example_db [] ?styles styles_sql = Inr (?styles, None)"
    by (simp add: example_simps)
  from processGpkgData_styles
         [where env = example_ol and db = "example_db [] ?styles"
            and sqlWasm = "example_sqlWasm [] ?styles" and gpkgByteArray = "[]"
            and loadedGpkgFile = "''a.gpkg''" and displayProjection = "''EPSG:3857''",
          THEN conjunct2, THEN conjunct2, THEN conjunct2, THEN mp, OF conjI [OF wasm run]]
    probe rows
  have "Map.graph slds = set (map style_pair ?styles)"
    by (auto simp: style_pair_def style_row_def stmt_get_def array_get_def)
  then have "Map.graph slds = {(''roads'', JsString ''<sld/>'')}"
    by (simp add: style_pair_def style_row_def stmt_get_def array_get_def)
  with all first show ?thesis
    by blast
qed

section \<open>Properties of \<open>readRawGpkg\<close> and \<open>loadGpkg\<close>\<close>

lemma show_nat_404: "show_nat 404 = ''404''"
  by (simp add: show_nat.simps)

text \<open>
  C3. \<open>loadGpkg\<close> throws exactly when \<open>promiseSqlWasmLoaded\<close> is still \<open>undefined\<close>
  (with \<open>WasmNotInitialized\<close>) or, that variable being set, when the display projection
  is not registered (with \<open>UnknownDisplayProjection\<close>). A call that throws has made no
  network request. Every other call returns a promise, and its network requests are those
  of \<open>readRawGpkg\<close>.
\<close>

theorem loadGpkg_synchronous_failures:
  "(fst (fst (loadGpkg env fetch st gpkgFile displayProjection)) = Threw e \<longleftrightarrow>
      (promiseSqlWasmLoaded st = None \<and> e = WasmNotInitialized) \<or>
      (promiseSqlWasmLoaded st \<noteq> None \<and> \<not> ol_proj_get env displayProjection \<and>
       e = UnknownDisplayProjection displayProjection)) \<and>
   (fst (fst (loadGpkg env fetch st gpkgFile displayProjection)) = Threw e \<longrightarrow>
      snd (fst (loadGpkg env fetch st gpkgFile displayProjection)) = []) \<and>
   (promiseSqlWasmLoaded st \<noteq> None \<and> ol_proj_get env displayProjection \<longrightarrow>
      (\<exists>p. fst (fst (loadGpkg env fetch st gpkgFile displayProjection)) = Returned p) \<and>
      snd (fst (loadGpkg env fetch st gpkgFile displayProjection)) =
        snd (readRawGpkg fetch gpkgFile))"
  by (auto simp: loadGpkg_def split: option.splits prod.splits)

theorem loadGpkg_synchronous_failures_witness:
  "fst (loadGpkg example_ol (\<lambda>url. Pending) \<lparr>promiseSqlWasmLoaded = None\<rparr>
          (InputString ''a.gpkg'') ''EPSG:3857'') = (Threw WasmNotInitialized, []) \<and>
   fst (loadGpkg example_ol (\<lambda>url. Pending) \<lparr>promiseSqlWasmLoaded = Some Pending\<rparr>
          (InputString ''a.gpkg'') ''EPSG:2154'') =
     (Threw (UnknownDisplayProjection ''EPSG:2154''), []) \<and>
   snd (fst (loadGpkg example_ol (\<lambda>url. Pending) \<lparr>promiseSqlWasmLoaded = Some Pending\<rparr>
          (InputString ''a.gpkg'') ''EPSG:3857'')) = [NetworkFetch ''a.gpkg'']"
  using
    loadGpkg_synchronous_failures [of example_ol "\<lambda>url. Pending" "\<lparr>promiseSqlWasmLoaded = None\<rparr>"
      "InputString ''a.gpkg''" "''EPSG:3857''" WasmNotInitialized]
    loadGpkg_synchronous_failures [of example_ol "\<lambda>url. Pending"
      "\<lparr>promiseSqlWasmLoaded = Some Pending\<rparr>"
      "InputString ''a.gpkg''" "''EPSG:2154''" "UnknownDisplayProjection ''EPSG:2154''"]
    loadGpkg_synchronous_failures [of example_ol "\<lambda>url. Pending"
      "\<lparr>promiseSqlWasmLoaded = Some Pending\<rparr>" "InputString ''a.gpkg''" "''EPSG:3857''"]
  by (simp add: example_ol_def prod_eq_iff fetchAndRead_def)

lemma wrapped_error_differs:
  "Error (''Unable to load SQLite JS binary (sql-wasm.wasm).\<newline>'' @ error_toString reason) \<noteq> reason"
proof (cases reason)
  case (Error m)
  have "(''Unable to load SQLite JS binary (sql-wasm.wasm).\<newline>'' @ ''Error: '') @ m \<noteq> m"
    by (simp only: append_self_conv2) simp
  then show ?thesis
    using Error by (cases "m = []") simp_all
next
  case (TypeError m)
  then show ?thesis by simp
qed

text \<open>
  C7. When \<open>loadGpkg\<close> does not throw, the promise it returns is pending as long as
  either the engine promise or the read promise is pending, also when the other one has
  already been rejected. Once both have settled: an engine failure is reported whatever
  the read did, wrapped in a new \<open>Error\<close> (\<open>WasmLoadFailed\<close>) whose message is the text
  \<open>Unable to load SQLite JS binary (sql-wasm.wasm).\<close>, a line break and the failure
  converted to a string, and which is never the failure itself; a read failure is passed on
  unchanged when the engine was loaded; and when both succeeded the outcome is that of
  \<open>processGpkgData\<close>.
\<close>

theorem loadGpkg_prerequisites:
  assumes "promiseSqlWasmLoaded st = Some wasmPromise"
    and "ol_proj_get env displayProjection"
    and "readRawGpkg fetch gpkgFile = (gpkgReadPromise, effects)"
  shows "\<exists>p. loadGpkg env fetch st gpkgFile displayProjection = ((Returned p, effects), st) \<and>
           (wasmPromise = Pending \<or> gpkgReadPromise = Pending \<longrightarrow> p = Pending) \<and>
           (\<forall>reason. wasmPromise = Rejected reason \<and> gpkgReadPromise \<noteq> Pending \<longrightarrow>
              p = Rejected (Error (''Unable to load SQLite JS binary (sql-wasm.wasm).\<newline>'' @
                                   error_toString reason)) \<and>
              p \<noteq> Rejected reason) \<and>
           (\<forall>sqlWasm reason. wasmPromise = Fulfilled sqlWasm \<and> gpkgReadPromise = Rejected reason \<longrightarrow>
              p = Rejected reason) \<and>
           (\<forall>sqlWasm gpkgByteArray.
              wasmPromise = Fulfilled sqlWasm \<and> gpkgReadPromise = Fulfilled gpkgByteArray \<longrightarrow>
              p = (case fst (processGpkgData env (gpkgFileName_of gpkgFile) gpkgByteArray sqlWasm
                               displayProjection) of
                     Inl err \<Rightarrow> Rejected err
                   | Inr loaded \<Rightarrow> Fulfilled loaded))"
proof -
  let ?p = "promise_then (allSettled wasmPromise gpkgReadPromise)
              (on_settled env gpkgFile displayProjection)"
  have "loadGpkg env fetch st gpkgFile displayProjection = ((Returned ?p, effects), st)"
    using assms by (simp add: loadGpkg_def)
  moreover have "wasmPromise = Pending \<or> gpkgReadPromise = Pending \<longrightarrow> ?p = Pending"
    by (cases wasmPromise) auto
  moreover have "wasmPromise = Rejected reason \<and> gpkgReadPromise \<noteq> Pending \<longrightarrow>
      ?p = Rejected (Error (''Unable to load SQLite JS binary (sql-wasm.wasm).\<newline>'' @
                            error_toString reason)) \<and>
      ?p \<noteq> Rejected reason" for reason
    using wrapped_error_differs [of reason]
    by (cases gpkgReadPromise) (auto simp: on_settled_def WasmLoadFailed_def)
  moreover have "wasmPromise = Fulfilled sqlWasm \<and> gpkgReadPromise = Rejected reason \<longrightarrow>
      ?p = Rejected reason" for sqlWasm reason
    by (auto simp: on_settled_def)
  moreover have "wasmPromise = Fulfilled sqlWasm \<and> gpkgReadPromise = Fulfilled gpkgByteArray \<longrightarrow>
      ?p = (case fst (processGpkgData env (gpkgFileName_of gpkgFile) gpkgByteArray sqlWasm
                        displayProjection) of
              Inl err \<Rightarrow> Rejected err
            | Inr loaded \<Rightarrow> Fulfilled loaded)" for sqlWasm gpkgByteArray
    by (auto simp: on_settled_def)
  ultimately show ?thesis
    by blast
qed

theorem loadGpkg_prerequisites_witness:
  "fst (loadGpkg example_ol (\<lambda>url. Pending)
          \<lparr>promiseSqlWasmLoaded = Some (Rejected (Error ''no wasm''))\<rparr> InputOther ''EPSG:3857'') =
     (Returned (Rejected (Error (''Unable to load SQLite JS binary (sql-wasm.wasm).'' @
                                 ''\<newline>Error: no wasm''))), []) \<and>
   fst (loadGpkg example_ol (\<lambda>url. Pending)
          \<lparr>promiseSqlWasmLoaded = Some (Rejected (Error ''no wasm''))\<rparr>
          (InputString ''a.gpkg'') ''EPSG:3857'') =
     (Returned Pending, [NetworkFetch ''a.gpkg''])"
proof -
  let ?st = "\<lparr>promiseSqlWasmLoaded = Some (Rejected (Error ''no wasm''))\<rparr>"
  have st: "promiseSqlWasmLoaded ?st = Some (Rejected (Error ''no wasm''))"
    by simp
  have reg: "ol_proj_get example_ol ''EPSG:3857''"
    by (simp add: example_ol_def)
  have other: "readRawGpkg (\<lambda>url. Pending) InputOther = (Rejected InvalidInputKind, [])"
    by simp
  have slow: "readRawGpkg (\<lambda>url. Pending) (InputString ''a.gpkg'') =
      (Pending, [NetworkFetch ''a.gpkg''])"
    by (simp add: fetchAndRead_def)
  from loadGpkg_prerequisites [OF st reg other] loadGpkg_prerequisites [OF st reg slow]
  show ?thesis
    by auto
qed

text \<open>
  C8. \<open>readRawGpkg\<close> reads a \<open>Blob\<close> or a \<open>File\<close> directly, with no network request,
  and delivers its bytes when the read succeeds. For a string or a \<open>URL\<close> it makes one
  network request; a response that is \<open>ok\<close> is read in the same way, and one that is
  not rejects the promise with \<open>SourceUnreachable\<close>, whose message holds the status of
  the response. Every other input rejects the promise with the TypeError
  \<open>InvalidInputKind\<close>, with no network request.
\<close>

theorem readRawGpkg_inputs:
  "readRawGpkg fetch (InputBlob blob) = (readBody blob, []) \<and>
   readRawGpkg fetch (InputFile name blob) = (readBody blob, []) \<and>
   (has_bytes blob \<and> bytes_result blob = Fulfilled b \<longrightarrow> readBody blob = Fulfilled b) \<and>
   (\<not> has_bytes blob \<and> arrayBuffer_result blob = Fulfilled b \<longrightarrow> readBody blob = Fulfilled b) \<and>
   snd (readRawGpkg fetch (InputString url)) = [NetworkFetch url] \<and>
   snd (readRawGpkg fetch (InputURL url)) = [NetworkFetch url] \<and>
   (\<forall>response. fetch url = Fulfilled response \<and> ok response \<longrightarrow>
      fst (readRawGpkg fetch (InputString url)) = readBody (body response) \<and>
      fst (readRawGpkg fetch (InputURL url)) = readBody (body response)) \<and>
   (\<forall>response. fetch url = Fulfilled response \<and> \<not> ok response \<longrightarrow>
      fst (readRawGpkg fetch (InputString url)) =
        Rejected (SourceUnreachable url (status response) (statusText response)) \<and>
      fst (readRawGpkg fetch (InputURL url)) =
        Rejected (SourceUnreachable url (status response) (statusText response)) \<and>
      SourceUnreachable url (status response) (statusText response) =
        Error (''GPKG file could not be loaded from URL:\<newline>  '' @ url @
               ''\<newline>Response: ('' @ show_nat (status response) @ '') '' @ statusText response)) \<and>
   readRawGpkg fetch InputOther = (Rejected InvalidInputKind, []) \<and>
   InvalidInputKind = TypeError ''Input must be URL string or URL/File/Blob object''"
  by (simp add: fetchAndRead_def readBody_def SourceUnreachable_def InvalidInputKind_def)

theorem readRawGpkg_inputs_witness:
  "readRawGpkg (\<lambda>url. Fulfilled not_found) (InputString ''http://x/a.gpkg'') =
     (Rejected (Error (''GPKG file could not be loaded from URL:\<newline>  http://x/a.gpkg'' @
                       ''\<newline>Response: (404) Not Found'')),
      [NetworkFetch ''http://x/a.gpkg'']) \<and>
   readRawGpkg (\<lambda>url. Fulfilled not_found) (InputBlob example_blob) = (Fulfilled [83, 81, 76], [])"
  using readRawGpkg_inputs [of "\<lambda>url. Fulfilled not_found" example_blob "[]" "[83, 81, 76]"
      "''http://x/a.gpkg''"]
  by (simp add: not_found_def example_blob_def show_nat_404 prod_eq_iff)

text \<open>
  C9. \<open>loadGpkg\<close> never assigns \<open>promiseSqlWasmLoaded\<close>: after any call, failing or
  not, the module state is the state before it, so a later call behaves as it would have
  without the earlier one.
\<close>

theorem loadGpkg_state_unchanged:
  "snd (loadGpkg env fetch st gpkgFile displayProjection) = st \<and>
   loadGpkg env' fetch' (snd (loadGpkg env fetch st gpkgFile displayProjection)) gpkgFile'
       displayProjection' =
     loadGpkg env' fetch' st gpkgFile' displayProjection'"
proof -
  have "snd (loadGpkg env fetch st gpkgFile displayProjection) = st"
    by (simp add: loadGpkg_def split: option.splits prod.splits)
  then show ?thesis
    by simp
qed

theorem loadGpkg_state_unchanged_witness:
  "promiseSqlWasmLoaded
     (snd (loadGpkg example_ol (\<lambda>url. Fulfilled not_found)
             \<lparr>promiseSqlWasmLoaded = Some Pending\<rparr> (InputString ''a.gpkg'') ''EPSG:3857'')) =
   Some Pending"
  using loadGpkg_state_unchanged [of example_ol "\<lambda>url. Fulfilled not_found"
      "\<lparr>promiseSqlWasmLoaded = Some Pending\<rparr>" "InputString ''a.gpkg''" "''EPSG:3857''"
      example_ol "\<lambda>url. Fulfilled not_found" "InputString ''a.gpkg''" "''EPSG:3857''"]
  by simp

end
